theory Spec2Isabelle
  imports Main "HOL-Library.Word" "HOL-Library.Sublist"
begin

unbundle bit_operations_syntax

section \<open>Python values, exceptions and ctypes buffers\<close>

text \<open>
  A Python \<open>str\<close> that travels through a \<open>ctypes\<close> wide-character buffer is represented
  by its UTF-16 code units, which is what \<open>create_unicode_buffer\<close> holds on Windows. The
  operations the controller applies to such strings (emptiness, \<open>strip\<close>, the test
  \<open>len(s) == 1 and category(s) == "Cc"\<close>) are decided by single code units of the Basic
  Multilingual Plane, so they read the same on the code units as on the code points.
\<close>

type_synonym wstr = "16 word list"

text \<open>Pointer-sized handles (\<open>HWND\<close>, \<open>HKL\<close>, \<open>HANDLE\<close>, \<open>HKEY\<close>). The value 0 is \<open>NULL\<close>.\<close>

type_synonym handle = "64 word"

text \<open>The handles the process holds open, one entry per successful open.\<close>

type_synonym handles = "handle list"

text \<open>
  Exceptions. A \<open>ValueError\<close> carries the message the source writes, an
  \<open>AttributeError\<close> the name of the attribute, a \<open>CalledProcessError\<close> the exit status.
  The interpreter's own message texts are not modelled.
\<close>

datatype error =
    ValueError string
  | TypeError
  | OSError string
  | CalledProcessError int
  | IndexError
  | ImportError string
  | AttributeError string

definition ascii :: "string \<Rightarrow> wstr" where
  "ascii s = map (\<lambda>c. of_nat (of_char c)) s"

definition create_unicode_buffer :: "nat \<Rightarrow> wstr" where
  "create_unicode_buffer n = replicate n 0"

text \<open>
  A foreign call that receives an array writes its output at the start of the array and
  leaves the rest as it was; it never writes past the end.
\<close>

definition c_store :: "'a list \<Rightarrow> 'a list \<Rightarrow> 'a list" where
  "c_store buf xs = take (length buf) xs @ drop (length xs) buf"

text \<open>\<open>buf.value\<close>: the array's content up to the first NUL, or all of it.\<close>

definition buf_value :: "wstr \<Rightarrow> wstr" where
  "buf_value buf = takeWhile (\<lambda>u. u \<noteq> 0) buf"

text \<open>\<open>str.strip()\<close> removes the characters for which \<open>str.isspace\<close> holds.\<close>

definition py_isspace :: "16 word \<Rightarrow> bool" where
  "py_isspace u \<longleftrightarrow>
     (0x09 \<le> u \<and> u \<le> 0x0D) \<or> (0x1C \<le> u \<and> u \<le> 0x20) \<or> u = 0x85 \<or> u = 0xA0 \<or>
     u = 0x1680 \<or> (0x2000 \<le> u \<and> u \<le> 0x200A) \<or> u = 0x2028 \<or> u = 0x2029 \<or>
     u = 0x202F \<or> u = 0x205F \<or> u = 0x3000"

definition strip :: "wstr \<Rightarrow> wstr" where
  "strip s = rev (dropWhile py_isspace (rev (dropWhile py_isspace s)))"

text \<open>\<open>unicodedata.category(c) == "Cc"\<close>: the C0 and C1 control characters.\<close>

definition is_Cc :: "16 word \<Rightarrow> bool" where
  "is_Cc u \<longleftrightarrow> u \<le> 0x1F \<or> (0x7F \<le> u \<and> u \<le> 0x9F)"

text \<open>\<open>format(n, "x")\<close> and the format specification \<open>#06x\<close>.\<close>

definition hex_digit :: "nat \<Rightarrow> char" where
  "hex_digit d = ''0123456789abcdef'' ! d"

function hex_digits :: "nat \<Rightarrow> string" where
  "hex_digits n = (if n < 16 then [hex_digit n] else hex_digits (n div 16) @ [hex_digit (n mod 16)])"
  by pat_completeness auto
termination
  by (relation "measure id") auto

declare hex_digits.simps [simp del]

definition format_06x :: "nat \<Rightarrow> string" where
  "format_06x n = ''0x'' @ replicate (4 - length (hex_digits n)) CHR ''0'' @ hex_digits n"

section \<open>models/key\_model.py\<close>

text \<open>
  The dataclass \<open>Key\<close> is frozen and has seven fields without defaults. A dataclass does not
  check the types of its fields, so each holds a Python value; the generated \<open>__init__\<close>
  takes exactly seven positional arguments and raises \<open>TypeError\<close> on any other number.
\<close>

datatype pyval = PStr wstr | PInt int | PNone

record Key =
  session_id :: pyval
  key_name :: pyval
  event :: pyval
  timestamp :: pyval
  scan_code :: pyval
  keyboard_layout :: pyval
  active_window :: pyval

fun Key_init :: "pyval list \<Rightarrow> error + Key" where
  "Key_init [a, b, c, d, e, f, g] =
     Inr \<lparr>session_id = a, key_name = b, event = c, timestamp = d, scan_code = e,
          keyboard_layout = f, active_window = g\<rparr>"
| "Key_init args = Inl TypeError"

section \<open>data\_collection/keyboard/key\_controller.py\<close>

text \<open>
  The Windows calls the controller makes through \<open>ctypes\<close>, as functions of their arguments.
  The environment is read-only and is the same at every call made while one event is built.
  A call that fills a buffer gives its return value and the units it writes.
  \<open>basename\<close> is \<open>os.path.basename\<close> and \<open>time_ns\<close> is \<open>time.time_ns()\<close>.
\<close>

record win_env =
  GetForegroundWindow :: handle
  GetWindowThreadProcessId :: "handle \<Rightarrow> 32 word \<times> 32 word"
  GetKeyboardLayout :: "32 word \<Rightarrow> handle"
  LCIDToLocaleName :: "32 word \<Rightarrow> 32 word \<Rightarrow> 32 word \<times> wstr"
  OpenProcess :: "32 word \<Rightarrow> bool \<Rightarrow> 32 word \<Rightarrow> handle"
  QueryFullProcessImageNameW :: "handle \<Rightarrow> 32 word \<Rightarrow> 32 word \<times> wstr"
  MapVirtualKeyExW :: "32 word \<Rightarrow> 32 word \<Rightarrow> handle \<Rightarrow> 32 word"
  MapVirtualKeyW :: "32 word \<Rightarrow> 32 word \<Rightarrow> 32 word"
  GetKeyboardState :: "32 word \<times> 8 word list"
  ToUnicodeEx :: "32 word \<Rightarrow> 32 word \<Rightarrow> 8 word list \<Rightarrow> 32 word \<Rightarrow> handle \<Rightarrow> 32 word \<times> wstr"
  time_ns :: int
  basename :: "wstr \<Rightarrow> wstr"

text \<open>The raw hook event: \<open>key.name\<close>, \<open>key.event_type\<close>, \<open>key.scan_code\<close> (\<open>None\<close> when absent).\<close>

record raw_event =
  ev_name :: wstr
  ev_event_type :: wstr
  ev_scan_code :: "int option"

text \<open>
  \<open>OpenProcess\<close> and \<open>CloseHandle\<close> with their effect on the open handles: a successful open
  adds the handle, a close removes it.
\<close>

definition call_OpenProcess :: "win_env \<Rightarrow> 32 word \<Rightarrow> bool \<Rightarrow> 32 word \<Rightarrow> handles \<Rightarrow> handle \<times> handles" where
  "call_OpenProcess env access inherit pid hs =
     (let h = OpenProcess env access inherit pid in (h, if h = 0 then hs else h # hs))"

definition CloseHandle :: "handle \<Rightarrow> handles \<Rightarrow> handles" where
  "CloseHandle h hs = remove1 h hs"

text \<open>
  \<open>get_language\<close>. \<open>GetKeyboardLayout\<close> is declared with \<open>restype = c_void_p\<close>, for which
  \<open>ctypes\<close> returns \<open>None\<close> on a \<open>NULL\<close> result; \<open>None & 0xFFFF\<close> raises \<open>TypeError\<close>.
  The foreground window is not tested: a \<open>NULL\<close> window is passed on as it is.
\<close>

definition get_language :: "win_env \<Rightarrow> error + wstr" where
  "get_language env =
     (let hwnd = GetForegroundWindow env;
          (tid, pid) = GetWindowThreadProcessId env hwnd;
          hkl = GetKeyboardLayout env tid
      in if hkl = 0 then Inl TypeError
         else
           let lang_id = hkl AND 0xFFFF;
               buf = create_unicode_buffer 85;
               (ok, written) = LCIDToLocaleName env (ucast lang_id) 0;
               buf = c_store buf written
           in Inr (if ok \<noteq> 0 then buf_value buf
                   else ascii (''LANGID_'' @ format_06x (unat lang_id))))"

text \<open>\<open>get_process_name\<close>: the \<open>try ... finally\<close> closes the handle on both outcomes of the query.\<close>

definition get_process_name :: "win_env \<Rightarrow> handles \<Rightarrow> wstr \<times> handles" where
  "get_process_name env hs =
     (let hwnd = GetForegroundWindow env
      in if hwnd = 0 then (ascii ''unknown.exe'', hs)
         else
           let (tid, pid) = GetWindowThreadProcessId env hwnd;
               (hproc, hs1) = call_OpenProcess env 0x1000 False pid hs
           in if hproc = 0 then (ascii ''unknown.exe'', hs1)
              else
                let buf = create_unicode_buffer 260;
                    (ok, written) = QueryFullProcessImageNameW env hproc 0;
                    buf = c_store buf written;
                    r = (if ok \<noteq> 0 then basename env (buf_value buf) else ascii ''unknown.exe'')
                in (r, CloseHandle hproc hs1))"

text \<open>
  \<open>map_scancode_to_char\<close>. The scan code is passed to the foreign calls as a \<open>UINT\<close>
  (\<open>ctypes\<close> masks it to 32 bits); the result of \<open>ToUnicodeEx\<close> is a \<open>c_int\<close>, read signed.
\<close>

definition MAPVK_VSC_TO_VK_EX :: "32 word" where
  "MAPVK_VSC_TO_VK_EX = 3"

definition MAPVK_VSC_TO_VK :: "32 word" where
  "MAPVK_VSC_TO_VK = 1"

definition map_scancode_to_char :: "win_env \<Rightarrow> int option \<Rightarrow> error + wstr" where
  "map_scancode_to_char env scancode =
     (case scancode of
        None \<Rightarrow> Inl (ValueError ''Scan code needed'')
      | Some sc \<Rightarrow>
          if sc = 0 then Inl (ValueError ''Scan code needed'')
          else
            let hwnd = GetForegroundWindow env
            in if hwnd = 0 then Inl (ValueError ''Unknown or no foreground window'')
               else
                 let (tid, pid) = GetWindowThreadProcessId env hwnd;
                     hkl = GetKeyboardLayout env tid;
                     vk = MapVirtualKeyExW env (word_of_int sc) MAPVK_VSC_TO_VK_EX hkl;
                     vk = (if vk = 0 then MapVirtualKeyW env (word_of_int sc) MAPVK_VSC_TO_VK else vk)
                 in if vk = 0 then Inr []
                    else
                      let (ok, state) = GetKeyboardState env;
                          key_state = c_store (replicate 256 0) state
                      in if ok = 0 then Inl (ValueError ''Unknown keyboard state'')
                         else
                           let buf = create_unicode_buffer 8;
                               (res, units) = ToUnicodeEx env vk (word_of_int sc) key_state 0 hkl;
                               buf = c_store buf units
                           in if 0 < sint res then Inr (buf_value buf) else Inr [])"

text \<open>
  \<open>build_key\<close>. The call \<open>Key(key_name, event, timestamp, scan_code, keyboard_layout,
  active_window)\<close> passes six positional arguments.
\<close>

definition py_int :: "int option \<Rightarrow> pyval" where
  "py_int v = (case v of None \<Rightarrow> PNone | Some n \<Rightarrow> PInt n)"

definition build_key :: "win_env \<Rightarrow> handles \<Rightarrow> raw_event \<Rightarrow> (error + Key) \<times> handles" where
  "build_key env hs key =
     (let sc = ev_scan_code key
      in case map_scancode_to_char env sc of
           Inl e \<Rightarrow> (Inl e, hs)
         | Inr ch \<Rightarrow>
             let stripped = strip ch;
                 kname = (if stripped = [] \<or> (case stripped of [c] \<Rightarrow> is_Cc c | _ \<Rightarrow> False)
                          then ev_name key else stripped);
                 ev = ev_event_type key;
                 ts = time_ns env
             in case get_language env of
                  Inl e \<Rightarrow> (Inl e, hs)
                | Inr layout \<Rightarrow>
                    let (window, hs1) = get_process_name env hs
                    in (Key_init [PStr kname, PStr ev, PInt ts, py_int sc, PStr layout, PStr window],
                        hs1))"

section \<open>system\_info.py\<close>

text \<open>
  Text read from files and from child processes is a \<open>string\<close>. The operations below are
  Python's \<open>str.strip\<close>, \<open>str.splitlines\<close>, \<open>str.split\<close> (with and without a separator),
  \<open>in\<close> on strings and \<open>str\<close> of a non-negative integer, on characters below 256.
\<close>

definition isspace8 :: "char \<Rightarrow> bool" where
  "isspace8 c \<longleftrightarrow>
     (let n = (of_char c :: nat)
      in (0x09 \<le> n \<and> n \<le> 0x0D) \<or> (0x1C \<le> n \<and> n \<le> 0x20) \<or> n = 0x85 \<or> n = 0xA0)"

definition strip8 :: "string \<Rightarrow> string" where
  "strip8 s = rev (dropWhile isspace8 (rev (dropWhile isspace8 s)))"

definition is_linebreak :: "char \<Rightarrow> bool" where
  "is_linebreak c \<longleftrightarrow>
     (let n = (of_char c :: nat)
      in (0x0A \<le> n \<and> n \<le> 0x0D) \<or> (0x1C \<le> n \<and> n \<le> 0x1E) \<or> n = 0x85)"

fun splitlines_from :: "string \<Rightarrow> string \<Rightarrow> string list" where
  "splitlines_from cur [] = (if cur = [] then [] else [cur])"
| "splitlines_from cur [c] = (if is_linebreak c then [cur] else [cur @ [c]])"
| "splitlines_from cur (c # d # cs) =
     (if c = CHR 0x0D \<and> d = CHR 0x0A then cur # splitlines_from [] cs
      else if is_linebreak c then cur # splitlines_from [] (d # cs)
      else splitlines_from (cur @ [c]) (d # cs))"

definition splitlines :: "string \<Rightarrow> string list" where
  "splitlines s = splitlines_from [] s"

fun split_ws_from :: "string \<Rightarrow> string \<Rightarrow> string list" where
  "split_ws_from cur [] = (if cur = [] then [] else [cur])"
| "split_ws_from cur (c # cs) =
     (if isspace8 c then (if cur = [] then split_ws_from [] cs else cur # split_ws_from [] cs)
      else split_ws_from (cur @ [c]) cs)"

definition split_ws :: "string \<Rightarrow> string list" where
  "split_ws s = split_ws_from [] s"

fun split_sep_from :: "char \<Rightarrow> string \<Rightarrow> string \<Rightarrow> string list" where
  "split_sep_from sep cur [] = [cur]"
| "split_sep_from sep cur (c # cs) =
     (if c = sep then cur # split_sep_from sep [] cs else split_sep_from sep (cur @ [c]) cs)"

definition split_sep :: "char \<Rightarrow> string \<Rightarrow> string list" where
  "split_sep sep s = split_sep_from sep [] s"

fun contains :: "string \<Rightarrow> string \<Rightarrow> bool" where
  "contains [] p = (p = [])"
| "contains (c # cs) p = (prefix p (c # cs) \<or> contains cs p)"

definition dec_digit :: "nat \<Rightarrow> char" where
  "dec_digit d = ''0123456789'' ! d"

function str_nat :: "nat \<Rightarrow> string" where
  "str_nat n = (if n < 10 then [dec_digit n] else str_nat (n div 10) @ [dec_digit (n mod 10)])"
  by pat_completeness auto
termination
  by (relation "measure id") auto

declare str_nat.simps [simp del]

text \<open>\<open>xs[-2]\<close> raises \<open>IndexError\<close> on a list shorter than two.\<close>

definition index_neg2 :: "'a list \<Rightarrow> error + 'a" where
  "index_neg2 xs =
     (if 2 \<le> length xs then Inr (xs ! (length xs - 2)) else Inl IndexError)"

text \<open>
  What the resolvers read from the host. Every operation that can raise gives an error or
  its value: \<open>import winreg\<close>, \<open>winreg.OpenKey\<close> on the path under
  \<open>HKEY_LOCAL_MACHINE\<close>, \<open>winreg.QueryValueEx\<close>, \<open>open(p, "r")\<close> followed by \<open>read()\<close>,
  \<open>subprocess.check_output\<close> on a command, \<open>os.getuid()\<close> and \<open>getpass.getuser()\<close>.
\<close>

record sys_env =
  platform :: string
  import_winreg :: "error + unit"
  winreg_OpenKey :: "string \<Rightarrow> error + handle"
  winreg_QueryValueEx :: "handle \<Rightarrow> string \<Rightarrow> error + string"
  open_read :: "string \<Rightarrow> error + string"
  check_output :: "string list \<Rightarrow> error + string"
  getnode :: nat
  getuid :: "error + nat"
  gethostname :: string
  getuser :: "error + string"

text \<open>The Linux loop over the two machine-id paths: the first that reads, or nothing.\<close>

fun linux_machine_id :: "sys_env \<Rightarrow> string list \<Rightarrow> string option" where
  "linux_machine_id env [] = None"
| "linux_machine_id env (p # ps) =
     (case open_read env p of
        Inr text \<Rightarrow> Some (''linux:'' @ strip8 text)
      | Inl e \<Rightarrow> linux_machine_id env ps)"

text \<open>
  The macOS loop over the lines of \<open>ioreg\<close>: the first line that mentions the key decides,
  by a return or by the \<open>IndexError\<close> of \<open>[-2]\<close>; \<open>Inr None\<close> is the loop running out.
\<close>

fun mac_platform_uuid :: "string list \<Rightarrow> error + string option" where
  "mac_platform_uuid [] = Inr None"
| "mac_platform_uuid (line # rest) =
     (if contains line ''IOPlatformUUID''
      then (case index_neg2 (split_sep (CHR 0x22) line) of
              Inl e \<Rightarrow> Inl e
            | Inr v \<Rightarrow> Inr (Some (''mac:'' @ v)))
      else mac_platform_uuid rest)"

definition fallback_id :: "sys_env \<Rightarrow> string" where
  "fallback_id env = ''fb_mac:'' @ str_nat (getnode env)"

text \<open>
  \<open>_get_device_id\<close>. Each branch sits in \<open>try ... except Exception: pass\<close>; the
  \<open>with\<close> statement closes the registry key when its block is left, by the return or by
  an exception.
\<close>

definition cryptography_key :: string where
  "cryptography_key = ''SOFTWARE'' @ [CHR 0x5C] @ ''Microsoft'' @ [CHR 0x5C] @ ''Cryptography''"

definition get_device_id :: "sys_env \<Rightarrow> handles \<Rightarrow> string \<times> handles" where
  "get_device_id env hs =
     (if prefix ''win'' (platform env) then
        (case import_winreg env of
           Inl e \<Rightarrow> (fallback_id env, hs)
         | Inr u \<Rightarrow>
             (case winreg_OpenKey env cryptography_key of
                Inl e \<Rightarrow> (fallback_id env, hs)
              | Inr k \<Rightarrow>
                  let hs1 = k # hs
                  in (case winreg_QueryValueEx env k ''MachineGuid'' of
                        Inl e \<Rightarrow> (fallback_id env, CloseHandle k hs1)
                      | Inr v \<Rightarrow> (''win:'' @ v, CloseHandle k hs1))))
      else if prefix ''linux'' (platform env) then
        (case linux_machine_id env [''/etc/machine-id'', ''/var/lib/dbus/machine-id''] of
           Some r \<Rightarrow> (r, hs)
         | None \<Rightarrow> (fallback_id env, hs))
      else if platform env = ''darwin'' then
        (case check_output env [''ioreg'', ''-rd1'', ''-c'', ''IOPlatformExpertDevice''] of
           Inl e \<Rightarrow> (fallback_id env, hs)
         | Inr out \<Rightarrow>
             (case mac_platform_uuid (splitlines out) of
                Inl e \<Rightarrow> (fallback_id env, hs)
              | Inr None \<Rightarrow> (fallback_id env, hs)
              | Inr (Some r) \<Rightarrow> (r, hs)))
      else (fallback_id env, hs))"

text \<open>
  \<open>_get_account_id\<close>. The Windows branch has no \<open>try\<close>: what \<open>check_output\<close> raises
  leaves the function. The other branch catches every exception of \<open>os.getuid()\<close>.
\<close>

definition get_account_id :: "sys_env \<Rightarrow> error + string" where
  "get_account_id env =
     (if prefix ''win'' (platform env) then
        (case check_output env [''whoami'', ''/user''] of
           Inl e \<Rightarrow> Inl e
         | Inr out \<Rightarrow>
             (case find (prefix ''S-1-'') (map strip8 (splitlines out)) of
                Some line \<Rightarrow> Inr (''sid:'' @ line)
              | None \<Rightarrow>
                  let parts = filter (prefix ''S-1-'') (split_ws out)
                  in if parts \<noteq> [] then Inr (''sid:'' @ last parts) else Inr ''sid:unknown''))
      else
        (case getuid env of
           Inr uid \<Rightarrow> Inr (''uid:'' @ str_nat uid)
         | Inl e \<Rightarrow> Inr ''uid:unknown''))"











section \<open>Names for intermediate values, and concrete hosts\<close>

text \<open>
  The layout handle, the virtual key and the composition that \<open>map_scancode_to_char\<close>
  computes on its way, named so that theorems can speak about them. \<open>virtual_key\<close> is
  written after the specification: the layout-aware mapping, and the layout-agnostic one
  when the first gives zero.
\<close>

definition focused_layout :: "win_env \<Rightarrow> handle" where
  "focused_layout env =
     GetKeyboardLayout env (fst (GetWindowThreadProcessId env (GetForegroundWindow env)))"

definition virtual_key :: "win_env \<Rightarrow> int \<Rightarrow> 32 word" where
  "virtual_key env sc =
     (if MapVirtualKeyExW env (word_of_int sc) 3 (focused_layout env) = 0
      then MapVirtualKeyW env (word_of_int sc) 1
      else MapVirtualKeyExW env (word_of_int sc) 3 (focused_layout env))"

definition composition :: "win_env \<Rightarrow> int \<Rightarrow> 32 word \<times> wstr" where
  "composition env sc =
     ToUnicodeEx env (virtual_key env sc) (word_of_int sc)
       (c_store (replicate 256 0) (snd (GetKeyboardState env))) 0 (focused_layout env)"

definition hex_char :: "char \<Rightarrow> bool" where
  "hex_char c \<longleftrightarrow> c \<in> set ''0123456789abcdef''"

definition device_prefixes :: "string list" where
  "device_prefixes = [''win:'', ''linux:'', ''mac:'', ''fb_mac:'']"

text \<open>A path's part after its last separator, as the concrete hosts' \<open>os.path.basename\<close>.\<close>

definition path_tail :: "wstr \<Rightarrow> wstr" where
  "path_tail p = rev (takeWhile (\<lambda>u. u \<noteq> 0x5C \<and> u \<noteq> 0x2F) (rev p))"

text \<open>
  A Windows host with a focused window of process 42 (Notepad), the en-US layout on every
  thread, no modifier held, and the key of scan code 30 producing \<open>a\<close>. Thread 0 names the
  calling thread, which has a layout of its own.
\<close>

definition env_enUS :: win_env where
  "env_enUS =
     \<lparr>GetForegroundWindow = 0x1A2B,
      GetWindowThreadProcessId = (\<lambda>h. if h = 0 then (0, 0) else (7, 42)),
      GetKeyboardLayout = (\<lambda>t. 0x04090409),
      LCIDToLocaleName = (\<lambda>lcid flags. if lcid = 0x0409 then (6, ascii ''en-US'' @ [0]) else (0, [])),
      OpenProcess = (\<lambda>access inherit pid. if pid = 42 then 0x88 else 0),
      QueryFullProcessImageNameW =
        (\<lambda>h flags. if h = 0x88
           then (1, ascii ''C:'' @ [0x5C] @ ascii ''Windows'' @ [0x5C] @ ascii ''notepad.exe'')
           else (0, [])),
      MapVirtualKeyExW = (\<lambda>sc mode hkl. if sc = 30 then 0x41 else 0),
      MapVirtualKeyW = (\<lambda>sc mode. if sc = 30 then 0x41 else 0),
      GetKeyboardState = (1, replicate 256 0),
      ToUnicodeEx = (\<lambda>vk sc ks flags hkl. if vk = 0x41 then (1, [0x61]) else (0, [])),
      time_ns = 1700000000000000000,
      basename = path_tail\<rparr>"

text \<open>The same host while no window has the focus (the desktop).\<close>

definition env_desktop :: win_env where
  "env_desktop = env_enUS\<lparr>GetForegroundWindow := 0\<rparr>"

text \<open>The same host with a focused window whose thread has no layout handle.\<close>

definition env_no_layout :: win_env where
  "env_no_layout = env_enUS\<lparr>GetKeyboardLayout := (\<lambda>t. 0)\<rparr>"

text \<open>The same host with a layout whose language identifier has no locale name.\<close>

definition env_custom_layout :: win_env where
  "env_custom_layout = env_enUS\<lparr>GetKeyboardLayout := (\<lambda>t. 0xF0C12000)\<rparr>"

text \<open>The same host with a key whose composition is ten units long.\<close>

definition env_long_composition :: win_env where
  "env_long_composition =
     env_enUS\<lparr>ToUnicodeEx := (\<lambda>vk sc ks flags hkl. (10, ascii ''abcdefghij''))\<rparr>"

text \<open>The same host with the process of the focused window protected against opening.\<close>

definition env_protected :: win_env where
  "env_protected = env_enUS\<lparr>OpenProcess := (\<lambda>access inherit pid. 0)\<rparr>"

text \<open>The same host while the modifier state cannot be read.\<close>

definition env_state_unreadable :: win_env where
  "env_state_unreadable = env_enUS\<lparr>GetKeyboardState := (0, [])\<rparr>"

text \<open>The same host with a key chord whose composition is the single unit U+0000.\<close>

definition env_nul_composition :: win_env where
  "env_nul_composition = env_enUS\<lparr>ToUnicodeEx := (\<lambda>vk sc ks flags hkl. (1, [0]))\<rparr>"

definition key_a_down :: raw_event where
  "key_a_down = \<lparr>ev_name = ascii ''a'', ev_event_type = ascii ''DOWN'', ev_scan_code = Some 30\<rparr>"

text \<open>A Windows host on which \<open>whoami /user\<close> exits with status 1.\<close>

definition env_whoami_fails :: sys_env where
  "env_whoami_fails =
     \<lparr>platform = ''win32'',
      import_winreg = Inr (),
      winreg_OpenKey = (\<lambda>p. Inr 0x200),
      winreg_QueryValueEx = (\<lambda>k n. Inr ''7d9a3c52-0b1e-4c7f-9a44-2f6f0c1d8e11''),
      open_read = (\<lambda>p. Inl (OSError ''No such file or directory'')),
      check_output = (\<lambda>cmd. Inl (CalledProcessError 1)),
      getnode = 190070690681122,
      getuid = Inl (AttributeError ''getuid''),
      gethostname = ''DESKTOP-01'',
      getuser = Inr ''olena''\<rparr>"

text \<open>A Linux host with a readable \<open>/etc/machine-id\<close> and user 1000.\<close>

definition env_linux :: sys_env where
  "env_linux =
     \<lparr>platform = ''linux'',
      import_winreg = Inl (ImportError ''No module named winreg''),
      winreg_OpenKey = (\<lambda>p. Inl (OSError ''no registry'')),
      winreg_QueryValueEx = (\<lambda>k n. Inl (OSError ''no registry'')),
      open_read =
        (\<lambda>p. if p = ''/etc/machine-id'' then Inr (''0123456789abcdef0123456789abcdef'' @ [CHR 0x0A])
             else Inl (OSError ''No such file or directory'')),
      check_output = (\<lambda>cmd. Inl (OSError ''No such file or directory'')),
      getnode = 190070690681122,
      getuid = Inr 1000,
      gethostname = ''devbox'',
      getuser = Inr ''olena''\<rparr>"

text \<open>A Linux host on which neither machine-id file can be read.\<close>

definition env_linux_unreadable :: sys_env where
  "env_linux_unreadable =
     env_linux\<lparr>open_read := (\<lambda>p. Inl (OSError ''Permission denied''))\<rparr>"


section \<open>Properties\<close>

lemma length_c_store: "length (c_store buf xs) = length buf"
  by (auto simp: c_store_def min_def)

lemma length_buf_value: "length (buf_value buf) \<le> length buf"
  by (simp add: buf_value_def length_takeWhile_le)

lemma c_store_fits:
  "length xs \<le> n \<Longrightarrow> c_store (create_unicode_buffer n) xs = xs @ replicate (n - length xs) 0"
  by (simp add: c_store_def create_unicode_buffer_def)

lemma buf_value_fits:
  assumes "length xs \<le> n" and "0 \<notin> set xs"
  shows "buf_value (c_store (create_unicode_buffer n) xs) = xs"
proof (cases "length xs = n")
  case True
  with assms show ?thesis
    by (simp add: c_store_fits buf_value_def takeWhile_eq_all_conv) metis
next
  case False
  with assms have "0 < n - length xs" by simp
  then obtain k where k: "n - length xs = Suc k" by (cases "n - length xs") auto
  have "takeWhile (\<lambda>u. u \<noteq> 0) (xs @ replicate (Suc k) (0::16 word)) = xs"
    using assms(2) by (subst takeWhile_append2) auto
  with assms k show ?thesis
    by (simp add: c_store_fits buf_value_def del: replicate_Suc)
qed

lemma translate_unfold:
  "map_scancode_to_char env (Some sc) =
     (if sc = 0 then Inl (ValueError ''Scan code needed'')
      else if GetForegroundWindow env = 0 then Inl (ValueError ''Unknown or no foreground window'')
      else if virtual_key env sc = 0 then Inr []
      else if fst (GetKeyboardState env) = 0 then Inl (ValueError ''Unknown keyboard state'')
      else if 0 < sint (fst (composition env sc))
        then Inr (buf_value (c_store (create_unicode_buffer 8) (snd (composition env sc))))
      else Inr [])"
  by (simp add: map_scancode_to_char_def virtual_key_def composition_def focused_layout_def
      MAPVK_VSC_TO_VK_EX_def MAPVK_VSC_TO_VK_def Let_def split: prod.splits)

lemma translate_None: "map_scancode_to_char env None = Inl (ValueError ''Scan code needed'')"
  by (simp add: map_scancode_to_char_def)

lemma env_enUS_simps:
  "GetForegroundWindow env_enUS = 0x1A2B"
  "GetKeyboardState env_enUS = (1, replicate 256 0)"
  "focused_layout env_enUS = 0x04090409"
  "virtual_key env_enUS 30 = 0x41"
  "composition env_enUS 30 = (1, [0x61])"
  by (simp_all add: env_enUS_def focused_layout_def virtual_key_def composition_def)

lemma takeWhile_append_replicate:
  "\<not> P z \<Longrightarrow> takeWhile P (xs @ replicate k z) = takeWhile P xs"
  by (induction xs) (auto simp: takeWhile_eq_Nil_iff)

lemma buf_value_store:
  "buf_value (c_store (create_unicode_buffer n) xs) = takeWhile (\<lambda>u. u \<noteq> 0) (take n xs)"
  by (simp add: buf_value_def c_store_def create_unicode_buffer_def takeWhile_append_replicate)

text \<open>
  Claim C7 as stated fails: with a focused window, a readable modifier state and a
  non-zero scan code, a composition with the positive result 1 that produced the single
  unit U+0000 makes the translator return the empty string, not the produced unit.
\<close>

theorem translate_positive_stops_at_NUL:
  "(30::int) \<noteq> 0 \<and> GetForegroundWindow env_nul_composition \<noteq> 0 \<and>
   fst (GetKeyboardState env_nul_composition) \<noteq> 0 \<and>
   virtual_key env_nul_composition 30 \<noteq> 0 \<and>
   0 < sint (fst (composition env_nul_composition 30)) \<and>
   snd (composition env_nul_composition 30) = [0] \<and>
   map_scancode_to_char env_nul_composition (Some 30) = Inr [] \<and>
   map_scancode_to_char env_nul_composition (Some 30) \<noteq> Inr (snd (composition env_nul_composition 30))"
  by (simp add: translate_unfold buf_value_store env_nul_composition_def env_enUS_def
      focused_layout_def virtual_key_def composition_def)

text \<open>
  Claim C7, amended. For a non-zero scan code, a focused window and a readable modifier
  state: when the layout-aware mapping and, after it, the layout-agnostic mapping both give
  the virtual key zero, the translator returns the empty string. Otherwise a positive
  result of the composition returns the produced units up to the first NUL among the first
  8 of them, which is all of them when they are at most 8 and none is NUL; a zero result
  and a negative result (a pending dead key) return the empty string, without an error.
\<close>

theorem translate_focused_readable:
  assumes "sc \<noteq> 0" and "GetForegroundWindow env \<noteq> 0" and "fst (GetKeyboardState env) \<noteq> 0"
  shows "(virtual_key env sc = 0 \<longrightarrow> map_scancode_to_char env (Some sc) = Inr []) \<and>
         (virtual_key env sc \<noteq> 0 \<and> 0 < sint (fst (composition env sc)) \<longrightarrow>
            map_scancode_to_char env (Some sc) =
              Inr (takeWhile (\<lambda>u. u \<noteq> 0) (take 8 (snd (composition env sc))))) \<and>
         (virtual_key env sc \<noteq> 0 \<and> 0 < sint (fst (composition env sc)) \<and>
          length (snd (composition env sc)) \<le> 8 \<and> 0 \<notin> set (snd (composition env sc)) \<longrightarrow>
            map_scancode_to_char env (Some sc) = Inr (snd (composition env sc))) \<and>
         (virtual_key env sc \<noteq> 0 \<and> sint (fst (composition env sc)) = 0 \<longrightarrow>
            map_scancode_to_char env (Some sc) = Inr []) \<and>
         (virtual_key env sc \<noteq> 0 \<and> sint (fst (composition env sc)) < 0 \<longrightarrow>
            map_scancode_to_char env (Some sc) = Inr [])"
  using assms by (auto simp: translate_unfold buf_value_store takeWhile_eq_all_conv)

theorem translate_focused_readable_witness:
  "(30::int) \<noteq> 0 \<and> GetForegroundWindow env_enUS \<noteq> 0 \<and> fst (GetKeyboardState env_enUS) \<noteq> 0 \<and>
   virtual_key env_enUS 30 \<noteq> 0 \<and> 0 < sint (fst (composition env_enUS 30)) \<and>
   snd (composition env_enUS 30) = ascii ''a'' \<and>
   map_scancode_to_char env_enUS (Some 30) = Inr (ascii ''a'')"
  using translate_focused_readable [of 30 env_enUS]
  by (simp add: env_enUS_simps ascii_def)

text \<open>
  Claim C10. Whatever the host and the scan code, a string the translator returns has at
  most 8 UTF-16 code units, the size of the buffer the composition writes into; a
  composition longer than the buffer is therefore never the string returned.
\<close>

theorem translate_at_most_8_units:
  assumes "map_scancode_to_char env scancode = Inr s"
  shows "length s \<le> 8 \<and>
         (\<forall>sc. scancode = Some sc \<and> 8 < length (snd (composition env sc)) \<longrightarrow>
            s \<noteq> snd (composition env sc))"
proof -
  have "length s \<le> 8"
  proof (cases scancode)
    case None
    with assms show ?thesis by (simp add: translate_None)
  next
    case (Some sc)
    have "length (buf_value (c_store (create_unicode_buffer 8) (snd (composition env sc)))) \<le> 8"
      using length_buf_value [of "c_store (create_unicode_buffer 8) (snd (composition env sc))"]
      by (simp add: length_c_store create_unicode_buffer_def)
    with assms Some show ?thesis
      by (auto simp: translate_unfold split: if_splits)
  qed
  then show ?thesis by auto
qed


lemma env_long_simps:
  "GetForegroundWindow env_long_composition = 0x1A2B"
  "GetKeyboardState env_long_composition = (1, replicate 256 0)"
  "virtual_key env_long_composition 30 = 0x41"
  "composition env_long_composition 30 = (10, ascii ''abcdefghij'')"
  by (simp_all add: env_long_composition_def env_enUS_def focused_layout_def virtual_key_def
      composition_def)

theorem translate_at_most_8_units_witness:
  "map_scancode_to_char env_long_composition (Some 30) = Inr (ascii ''abcdefgh'') \<and>
   length (ascii ''abcdefgh'') \<le> 8 \<and>
   8 < length (snd (composition env_long_composition 30)) \<and>
   ascii ''abcdefgh'' \<noteq> snd (composition env_long_composition 30)"
proof -
  have r: "map_scancode_to_char env_long_composition (Some 30) = Inr (ascii ''abcdefgh'')"
    by (simp add: translate_unfold env_long_simps ascii_def c_store_def create_unicode_buffer_def
        buf_value_def)
  from translate_at_most_8_units [OF r] show ?thesis
    using r by (simp add: env_long_simps ascii_def)
qed

text \<open>
  Claim C8. \<open>get_process_name\<close> leaves the open handles as it found them on every path,
  so the process handle it opened is closed before it returns; and when there is no focused
  window, the process cannot be opened or the image path cannot be queried, it returns
  \<open>unknown.exe\<close>.
\<close>

theorem get_process_name_releases_handle:
  "snd (get_process_name env hs) = hs \<and>
   (GetForegroundWindow env = 0 \<or>
    OpenProcess env 0x1000 False (snd (GetWindowThreadProcessId env (GetForegroundWindow env))) = 0 \<or>
    fst (QueryFullProcessImageNameW env
          (OpenProcess env 0x1000 False (snd (GetWindowThreadProcessId env (GetForegroundWindow env)))) 0) = 0
    \<longrightarrow> fst (get_process_name env hs) = ascii ''unknown.exe'')"
  by (simp add: get_process_name_def call_OpenProcess_def CloseHandle_def Let_def
      split: prod.splits)

theorem get_process_name_releases_handle_witness:
  "snd (get_process_name env_protected [5]) = [5] \<and>
   OpenProcess env_protected 0x1000 False
     (snd (GetWindowThreadProcessId env_protected (GetForegroundWindow env_protected))) = 0 \<and>
   fst (get_process_name env_protected [5]) = ascii ''unknown.exe''"
  using get_process_name_releases_handle [of env_protected "[5]"]
  by (simp add: env_protected_def env_enUS_def)

lemma get_process_name_opens_then_closes:
  "get_process_name env_enUS [5] = (ascii ''notepad.exe'', [5]) \<and>
   call_OpenProcess env_enUS 0x1000 False 42 [5] = (0x88, [0x88, 5])"
  by (simp add: get_process_name_def call_OpenProcess_def CloseHandle_def Let_def env_enUS_def
      create_unicode_buffer_def c_store_def buf_value_def path_tail_def ascii_def)

text \<open>
  Claim C6, evaluated on the code. While no window has the focus, \<open>get_language\<close> asks for
  the layout of thread 0, the calling thread, and returns its locale name \<open>en-US\<close>: not
  the diagnostic string \<open>LANGID_0x\<close> followed by four hexadecimal digits.
\<close>

theorem get_language_without_focus:
  "GetForegroundWindow env_desktop = 0 \<and> get_language env_desktop = Inr (ascii ''en-US'')"
  by (simp add: get_language_def env_desktop_def env_enUS_def Let_def create_unicode_buffer_def
      c_store_def buf_value_def ascii_def)

lemma get_language_null_layout:
  "get_language env_no_layout =
     Inl TypeError"
  by (simp add: get_language_def env_no_layout_def env_enUS_def Let_def)

lemma hex_digits_length: "n < 65536 \<Longrightarrow> length (hex_digits n) \<le> 4"
  by (simp add: hex_digits.simps [of n] hex_digits.simps [of "n div 16"]
      hex_digits.simps [of "n div 16 div 16"] hex_digits.simps [of "n div 16 div 16 div 16"])

lemma hex_digit_hex: "d < 16 \<Longrightarrow> hex_char (hex_digit d)"
proof -
  assume "d < 16"
  then have "d \<in> {0,1,2,3,4,5,6,7,8,9,10,11,12,13,14,15}" by simp arith
  then show ?thesis by (auto simp: hex_char_def hex_digit_def)
qed

lemma hex_digits_hex: "list_all hex_char (hex_digits n)"
proof (induction n rule: hex_digits.induct)
  case (1 n)
  show ?case
  proof (cases "n < 16")
    case True
    then show ?thesis by (simp add: hex_digits.simps [of n] hex_digit_hex)
  next
    case False
    with 1 show ?thesis by (simp add: hex_digits.simps [of n] hex_digit_hex)
  qed
qed

lemma format_06x_shape:
  assumes "n < 65536"
  shows "\<exists>ds. format_06x n = ''0x'' @ ds \<and> length ds = 4 \<and> list_all hex_char ds"
proof -
  let ?ds = "replicate (4 - length (hex_digits n)) CHR ''0'' @ hex_digits n"
  have "length ?ds = 4" using hex_digits_length [OF assms] by simp
  moreover have "hex_char CHR ''0''" by (simp add: hex_char_def)
  then have "list_all hex_char ?ds"
    using hex_digits_hex [of n] by (auto simp: list_all_iff)
  ultimately show ?thesis by (auto simp: format_06x_def)
qed

lemma get_language_fallback_format:
  assumes "focused_layout env \<noteq> 0"
    and "fst (LCIDToLocaleName env (ucast (focused_layout env AND 0xFFFF)) 0) = 0"
  shows "\<exists>ds. get_language env = Inr (ascii (''LANGID_0x'' @ ds)) \<and> length ds = 4 \<and>
              list_all hex_char ds"
proof -
  have "unat (focused_layout env AND 0xFFFF) < 65536"
  proof -
    have "focused_layout env AND 0xFFFF \<le> 0xFFFF" by (rule word_and_le1)
    then show ?thesis by (simp add: word_le_nat_alt)
  qed
  from format_06x_shape [OF this] obtain ds where
    ds: "format_06x (unat (focused_layout env AND 0xFFFF)) = ''0x'' @ ds" "length ds = 4"
      "list_all hex_char ds" by blast
  have "get_language env = Inr (ascii (''LANGID_'' @ format_06x (unat (focused_layout env AND 0xFFFF))))"
    using assms by (simp add: get_language_def focused_layout_def Let_def case_prod_beta)
  with ds show ?thesis by auto
qed


lemma build_key_never_returns: "fst (build_key env hs key) \<noteq> Inr k"
  by (simp add: build_key_def Let_def case_prod_beta split: sum.splits)

lemma translate_enUS_a: "map_scancode_to_char env_enUS (Some 30) = Inr [0x61]"
  by (simp add: translate_unfold env_enUS_simps buf_value_fits)

lemma get_language_enUS: "get_language env_enUS = Inr (ascii ''en-US'')"
  by (simp add: get_language_def env_enUS_def Let_def create_unicode_buffer_def
      c_store_def buf_value_def ascii_def)

lemma get_process_name_enUS: "get_process_name env_enUS hs = (ascii ''notepad.exe'', hs)"
  by (simp add: get_process_name_def call_OpenProcess_def CloseHandle_def Let_def env_enUS_def
      create_unicode_buffer_def c_store_def buf_value_def path_tail_def ascii_def)

text \<open>
  Claim C1, evaluated on the code. For the event of the key \<open>a\<close> going down (scan code 30),
  with a focused window, the en-US layout and a readable modifier state, \<open>build_key\<close>
  does not return a \<open>Key\<close>: the constructor is called with six arguments and raises
  \<open>TypeError\<close>.
\<close>

theorem build_key_raises_TypeError:
  "build_key env_enUS [] key_a_down =
     (Inl TypeError, [])"
  by (simp add: build_key_def key_a_down_def translate_enUS_a get_language_enUS
      get_process_name_enUS Let_def strip_def py_isspace_def is_Cc_def)

lemma build_key_propagates:
  "map_scancode_to_char env (ev_scan_code key) = Inl e \<Longrightarrow> build_key env hs key = (Inl e, hs)"
  by (simp add: build_key_def)

text \<open>
  Claim C2 as stated fails: with the non-zero scan code 30 and no focused window the
  translator raises \<open>ValueError\<close>, and \<open>build_key\<close> aborts with it.
\<close>

theorem translator_aborts_without_focus:
  "map_scancode_to_char env_desktop (Some 30) = Inl (ValueError ''Unknown or no foreground window'') \<and>
   build_key env_desktop [] key_a_down = (Inl (ValueError ''Unknown or no foreground window''), [])"
proof -
  have "map_scancode_to_char env_desktop (Some 30) = Inl (ValueError ''Unknown or no foreground window'')"
    by (simp add: translate_unfold env_desktop_def env_enUS_def)
  then show ?thesis
    by (simp add: build_key_propagates key_a_down_def)
qed

text \<open>
  Claim C2, amended. For a non-zero scan code the translator raises in exactly two
  situations: no focused window, and an unreadable modifier state once a virtual key was
  found. A layout that cannot be resolved is no reason to raise, a key without a virtual key
  gives the empty string, and \<open>build_key\<close> passes on what the translator raises.
\<close>

theorem translator_failures:
  assumes "sc \<noteq> 0"
  shows "(map_scancode_to_char env (Some sc) = Inl e \<longleftrightarrow>
            (GetForegroundWindow env = 0 \<and> e = ValueError ''Unknown or no foreground window'') \<or>
            (GetForegroundWindow env \<noteq> 0 \<and> virtual_key env sc \<noteq> 0 \<and>
             fst (GetKeyboardState env) = 0 \<and> e = ValueError ''Unknown keyboard state'')) \<and>
         (GetForegroundWindow env \<noteq> 0 \<and> virtual_key env sc = 0 \<longrightarrow>
            map_scancode_to_char env (Some sc) = Inr []) \<and>
         (ev_scan_code key = Some sc \<and> map_scancode_to_char env (Some sc) = Inl e \<longrightarrow>
            build_key env hs key = (Inl e, hs))"
  using assms by (auto simp: translate_unfold build_key_propagates)

theorem translator_failures_witness:
  "(30::int) \<noteq> 0 \<and> GetForegroundWindow env_state_unreadable \<noteq> 0 \<and>
   virtual_key env_state_unreadable 30 \<noteq> 0 \<and> fst (GetKeyboardState env_state_unreadable) = 0 \<and>
   ev_scan_code key_a_down = Some 30 \<and>
   map_scancode_to_char env_state_unreadable (Some 30) = Inl (ValueError ''Unknown keyboard state'') \<and>
   build_key env_state_unreadable [] key_a_down = (Inl (ValueError ''Unknown keyboard state''), [])"
proof -
  have h: "GetForegroundWindow env_state_unreadable \<noteq> 0"
    "virtual_key env_state_unreadable 30 \<noteq> 0" "fst (GetKeyboardState env_state_unreadable) = 0"
    "ev_scan_code key_a_down = Some 30"
    by (simp_all add: env_state_unreadable_def env_enUS_def virtual_key_def focused_layout_def
        key_a_down_def)
  from translator_failures [of 30 env_state_unreadable "ValueError ''Unknown keyboard state''"
      key_a_down "[]"] h
  show ?thesis by simp
qed

text \<open>
  Claim C4. For the scan code 0 and for an absent scan code the translator raises
  \<open>ValueError("Scan code needed")\<close> on every host and returns no value; \<open>build_key\<close>
  lets the error through to its caller.
\<close>

theorem translate_zero_raises:
  "map_scancode_to_char env (Some 0) = Inl (ValueError ''Scan code needed'') \<and>
   map_scancode_to_char env None = Inl (ValueError ''Scan code needed'') \<and>
   build_key env hs (key\<lparr>ev_scan_code := Some 0\<rparr>) = (Inl (ValueError ''Scan code needed''), hs) \<and>
   build_key env hs (key\<lparr>ev_scan_code := None\<rparr>) = (Inl (ValueError ''Scan code needed''), hs)"
  by (simp add: map_scancode_to_char_def build_key_def)


text \<open>
  Claim C3, evaluated on the code. On a Windows host where \<open>whoami /user\<close> fails,
  \<open>_get_account_id\<close> raises what \<open>check_output\<close> raised instead of returning
  \<open>sid:unknown\<close>.
\<close>

theorem get_account_id_whoami_failure:
  "prefix ''win'' (platform env_whoami_fails) \<and>
   get_account_id env_whoami_fails = Inl (CalledProcessError 1)"
  by (simp add: get_account_id_def env_whoami_fails_def)

lemma get_account_id_windows:
  assumes "prefix ''win'' (platform env)" and "check_output env [''whoami'', ''/user''] = Inr out"
  shows "\<exists>x. get_account_id env = Inr (''sid:'' @ x) \<and> (x = ''unknown'' \<or> prefix ''S-1-'' x)"
proof (cases "find (prefix ''S-1-'') (map strip8 (splitlines out))")
  case (Some line)
  then have "prefix ''S-1-'' line" by (auto simp: find_Some_iff)
  with assms Some show ?thesis by (simp add: get_account_id_def)
next
  case None
  show ?thesis
  proof (cases "filter (prefix ''S-1-'') (split_ws out) = []")
    case True
    with assms None show ?thesis by (simp add: get_account_id_def)
  next
    case False
    then have "last (filter (prefix ''S-1-'') (split_ws out)) \<in> set (filter (prefix ''S-1-'') (split_ws out))"
      by (rule last_in_set)
    then have "prefix ''S-1-'' (last (filter (prefix ''S-1-'') (split_ws out)))" by simp
    with assms None False show ?thesis by (simp add: get_account_id_def Let_def)
  qed
qed

lemma get_account_id_posix:
  assumes "\<not> prefix ''win'' (platform env)"
  shows "get_account_id env =
           Inr (case getuid env of Inr uid \<Rightarrow> ''uid:'' @ str_nat uid | Inl e \<Rightarrow> ''uid:unknown'')"
  using assms by (simp add: get_account_id_def split: sum.splits)

lemma linux_machine_id_tag:
  "linux_machine_id env ps = Some r \<Longrightarrow> \<exists>t. r = ''linux:'' @ t"
  by (induction ps) (auto split: sum.splits)

lemma mac_platform_uuid_tag:
  "mac_platform_uuid ls = Inr (Some r) \<Longrightarrow> \<exists>t. r = ''mac:'' @ t"
  by (induction ls) (auto split: sum.splits if_splits)

lemma tagged_once:
  "length (filter (\<lambda>p. prefix p (''win:'' @ t)) device_prefixes) = 1"
  "length (filter (\<lambda>p. prefix p (''linux:'' @ t)) device_prefixes) = 1"
  "length (filter (\<lambda>p. prefix p (''mac:'' @ t)) device_prefixes) = 1"
  "length (filter (\<lambda>p. prefix p (''fb_mac:'' @ t)) device_prefixes) = 1"
  by (simp_all add: device_prefixes_def)

lemma device_id_shape:
  "\<exists>s. get_device_id env hs = (s, hs) \<and> s \<noteq> [] \<and>
       length (filter (\<lambda>p. prefix p s) device_prefixes) = 1 \<and>
       (s = fallback_id env \<or> (prefix ''win'' (platform env) \<and> prefix ''win:'' s) \<or>
        (prefix ''linux'' (platform env) \<and> prefix ''linux:'' s) \<or>
        (platform env = ''darwin'' \<and> prefix ''mac:'' s))"
proof -
  have fb: "fallback_id env \<noteq> [] \<and>
      length (filter (\<lambda>p. prefix p (fallback_id env)) device_prefixes) = 1"
    using tagged_once(4) [of "str_nat (getnode env)"] by (simp add: fallback_id_def)
  show ?thesis
  proof (cases "prefix ''win'' (platform env)")
    case True
    then show ?thesis
      using fb tagged_once(1)
      by (auto simp: get_device_id_def CloseHandle_def Let_def split: sum.splits)
  next
    case nw: False
    show ?thesis
    proof (cases "prefix ''linux'' (platform env)")
      case True
      show ?thesis
      proof (cases "linux_machine_id env [''/etc/machine-id'', ''/var/lib/dbus/machine-id'']")
        case None
        with nw True fb show ?thesis by (simp add: get_device_id_def)
      next
        case (Some r)
        then obtain t where "r = ''linux:'' @ t" using linux_machine_id_tag by blast
        with nw True Some tagged_once(2) [of t] show ?thesis
          by (simp add: get_device_id_def)
      qed
    next
      case nl: False
      show ?thesis
      proof (cases "platform env = ''darwin''")
        case False
        with nw nl fb show ?thesis by (simp add: get_device_id_def)
      next
        case True
        show ?thesis
        proof (cases "check_output env [''ioreg'', ''-rd1'', ''-c'', ''IOPlatformExpertDevice'']")
          case (Inl e)
          with nw nl True fb show ?thesis by (simp add: get_device_id_def)
        next
          case (Inr out)
          show ?thesis
          proof (cases "mac_platform_uuid (splitlines out)")
            case (Inl e)
            with nw nl True fb \<open>check_output env _ = Inr out\<close> show ?thesis
              by (simp add: get_device_id_def)
          next
            case r: (Inr v)
            show ?thesis
            proof (cases v)
              case None
              with nw nl True fb r \<open>check_output env _ = Inr out\<close> show ?thesis
                by (simp add: get_device_id_def)
            next
              case (Some r')
              with r obtain t where "r' = ''mac:'' @ t" using mac_platform_uuid_tag by blast
              with nw nl True r Some \<open>check_output env _ = Inr out\<close> tagged_once(3) [of t]
              show ?thesis by (simp add: get_device_id_def)
            qed
          qed
        qed
      qed
    qed
  qed
qed


lemma mac_platform_uuid_find:
  "mac_platform_uuid ls =
     (case find (\<lambda>l. contains l ''IOPlatformUUID'') ls of
        None \<Rightarrow> Inr None
      | Some l \<Rightarrow>
          (case index_neg2 (split_sep (CHR 0x22) l) of
             Inl e \<Rightarrow> Inl e
           | Inr v \<Rightarrow> Inr (Some (''mac:'' @ v))))"
  by (induction ls) simp_all

text \<open>
  Claim C5. On every host \<open>_get_device_id\<close> returns a string and closes the registry key
  it opened; the string is not empty and exactly one of the four tags \<open>win:\<close>,
  \<open>linux:\<close>, \<open>mac:\<close>, \<open>fb_mac:\<close> is a prefix of it. Only the branch of the host's
  platform runs, and each failure in it is absorbed and falls through to the fallback made
  from the network hardware address: on Windows a failed import, a key that cannot be
  opened or a value that cannot be read; on Linux two unreadable files (the second is tried
  when the first fails); on macOS a failed command, an output without the key, or a line
  with the key and fewer than two quote-separated parts; and a platform that is none of
  the three. When the branch succeeds the result carries the platform's tag.
\<close>

theorem device_id_tagged:
  "\<exists>s. get_device_id env hs = (s, hs) \<and> s \<noteq> [] \<and>
       length (filter (\<lambda>p. prefix p s) device_prefixes) = 1 \<and>
       (s = fallback_id env \<or> (prefix ''win'' (platform env) \<and> prefix ''win:'' s) \<or>
        (prefix ''linux'' (platform env) \<and> prefix ''linux:'' s) \<or>
        (platform env = ''darwin'' \<and> prefix ''mac:'' s)) \<and>
       (prefix ''win'' (platform env) \<longrightarrow>
          (import_winreg env = Inl e_import \<longrightarrow> s = fallback_id env) \<and>
          (import_winreg env = Inr () \<and> winreg_OpenKey env cryptography_key = Inl e_open \<longrightarrow>
             s = fallback_id env) \<and>
          (import_winreg env = Inr () \<and> winreg_OpenKey env cryptography_key = Inr k \<and>
           winreg_QueryValueEx env k ''MachineGuid'' = Inl e_query \<longrightarrow> s = fallback_id env) \<and>
          (import_winreg env = Inr () \<and> winreg_OpenKey env cryptography_key = Inr k \<and>
           winreg_QueryValueEx env k ''MachineGuid'' = Inr v \<longrightarrow> s = ''win:'' @ v)) \<and>
       (\<not> prefix ''win'' (platform env) \<and> prefix ''linux'' (platform env) \<longrightarrow>
          (open_read env ''/etc/machine-id'' = Inr t1 \<longrightarrow> s = ''linux:'' @ strip8 t1) \<and>
          (open_read env ''/etc/machine-id'' = Inl e1 \<and>
           open_read env ''/var/lib/dbus/machine-id'' = Inr t2 \<longrightarrow> s = ''linux:'' @ strip8 t2) \<and>
          (open_read env ''/etc/machine-id'' = Inl e1 \<and>
           open_read env ''/var/lib/dbus/machine-id'' = Inl e2 \<longrightarrow> s = fallback_id env)) \<and>
       (\<not> prefix ''win'' (platform env) \<and> \<not> prefix ''linux'' (platform env) \<and>
        platform env = ''darwin'' \<longrightarrow>
          (check_output env [''ioreg'', ''-rd1'', ''-c'', ''IOPlatformExpertDevice''] = Inl e_cmd \<longrightarrow>
             s = fallback_id env) \<and>
          (check_output env [''ioreg'', ''-rd1'', ''-c'', ''IOPlatformExpertDevice''] = Inr out \<and>
           find (\<lambda>l. contains l ''IOPlatformUUID'') (splitlines out) = None \<longrightarrow>
             s = fallback_id env) \<and>
          (check_output env [''ioreg'', ''-rd1'', ''-c'', ''IOPlatformExpertDevice''] = Inr out \<and>
           find (\<lambda>l. contains l ''IOPlatformUUID'') (splitlines out) = Some line \<and>
           length (split_sep (CHR 0x22) line) < 2 \<longrightarrow> s = fallback_id env) \<and>
          (check_output env [''ioreg'', ''-rd1'', ''-c'', ''IOPlatformExpertDevice''] = Inr out \<and>
           find (\<lambda>l. contains l ''IOPlatformUUID'') (splitlines out) = Some line \<and>
           2 \<le> length (split_sep (CHR 0x22) line) \<longrightarrow>
             s = ''mac:'' @ split_sep (CHR 0x22) line ! (length (split_sep (CHR 0x22) line) - 2))) \<and>
       (\<not> prefix ''win'' (platform env) \<and> \<not> prefix ''linux'' (platform env) \<and>
        platform env \<noteq> ''darwin'' \<longrightarrow> s = fallback_id env)"
proof -
  obtain s where s: "get_device_id env hs = (s, hs)" "s \<noteq> []"
      "length (filter (\<lambda>p. prefix p s) device_prefixes) = 1"
      "s = fallback_id env \<or> (prefix ''win'' (platform env) \<and> prefix ''win:'' s) \<or>
        (prefix ''linux'' (platform env) \<and> prefix ''linux:'' s) \<or>
        (platform env = ''darwin'' \<and> prefix ''mac:'' s)"
    using device_id_shape [of env hs] by blast
  have w: "prefix ''win'' (platform env) \<longrightarrow>
          (import_winreg env = Inl e_import \<longrightarrow> s = fallback_id env) \<and>
          (import_winreg env = Inr () \<and> winreg_OpenKey env cryptography_key = Inl e_open \<longrightarrow>
             s = fallback_id env) \<and>
          (import_winreg env = Inr () \<and> winreg_OpenKey env cryptography_key = Inr k \<and>
           winreg_QueryValueEx env k ''MachineGuid'' = Inl e_query \<longrightarrow> s = fallback_id env) \<and>
          (import_winreg env = Inr () \<and> winreg_OpenKey env cryptography_key = Inr k \<and>
           winreg_QueryValueEx env k ''MachineGuid'' = Inr v \<longrightarrow> s = ''win:'' @ v)"
    using s(1) by (auto simp: get_device_id_def CloseHandle_def Let_def)
  have l: "\<not> prefix ''win'' (platform env) \<and> prefix ''linux'' (platform env) \<longrightarrow>
          (open_read env ''/etc/machine-id'' = Inr t1 \<longrightarrow> s = ''linux:'' @ strip8 t1) \<and>
          (open_read env ''/etc/machine-id'' = Inl e1 \<and>
           open_read env ''/var/lib/dbus/machine-id'' = Inr t2 \<longrightarrow> s = ''linux:'' @ strip8 t2) \<and>
          (open_read env ''/etc/machine-id'' = Inl e1 \<and>
           open_read env ''/var/lib/dbus/machine-id'' = Inl e2 \<longrightarrow> s = fallback_id env)"
    using s(1) by (auto simp: get_device_id_def)
  have m: "\<not> prefix ''win'' (platform env) \<and> \<not> prefix ''linux'' (platform env) \<and>
        platform env = ''darwin'' \<longrightarrow>
          (check_output env [''ioreg'', ''-rd1'', ''-c'', ''IOPlatformExpertDevice''] = Inl e_cmd \<longrightarrow>
             s = fallback_id env) \<and>
          (check_output env [''ioreg'', ''-rd1'', ''-c'', ''IOPlatformExpertDevice''] = Inr out \<and>
           find (\<lambda>l. contains l ''IOPlatformUUID'') (splitlines out) = None \<longrightarrow>
             s = fallback_id env) \<and>
          (check_output env [''ioreg'', ''-rd1'', ''-c'', ''IOPlatformExpertDevice''] = Inr out \<and>
           find (\<lambda>l. contains l ''IOPlatformUUID'') (splitlines out) = Some line \<and>
           length (split_sep (CHR 0x22) line) < 2 \<longrightarrow> s = fallback_id env) \<and>
          (check_output env [''ioreg'', ''-rd1'', ''-c'', ''IOPlatformExpertDevice''] = Inr out \<and>
           find (\<lambda>l. contains l ''IOPlatformUUID'') (splitlines out) = Some line \<and>
           2 \<le> length (split_sep (CHR 0x22) line) \<longrightarrow>
             s = ''mac:'' @ split_sep (CHR 0x22) line ! (length (split_sep (CHR 0x22) line) - 2))"
    using s(1) by (auto simp: get_device_id_def mac_platform_uuid_find index_neg2_def)
  have o: "\<not> prefix ''win'' (platform env) \<and> \<not> prefix ''linux'' (platform env) \<and>
        platform env \<noteq> ''darwin'' \<longrightarrow> s = fallback_id env"
    using s(1) by (auto simp: get_device_id_def)
  show ?thesis
    by (rule exI [of _ s]) (intro conjI; rule s w l m o)
qed

lemma fallback_id_linux_unreadable:
  "fallback_id env_linux_unreadable = ''fb_mac:190070690681122''"
  by (simp add: fallback_id_def env_linux_unreadable_def env_linux_def str_nat.simps dec_digit_def)

theorem device_id_tagged_witness:
  "\<not> prefix ''win'' (platform env_linux_unreadable) \<and> prefix ''linux'' (platform env_linux_unreadable) \<and>
   open_read env_linux_unreadable ''/etc/machine-id'' = Inl (OSError ''Permission denied'') \<and>
   open_read env_linux_unreadable ''/var/lib/dbus/machine-id'' = Inl (OSError ''Permission denied'') \<and>
   get_device_id env_linux_unreadable [] = (''fb_mac:190070690681122'', []) \<and>
   open_read env_linux ''/etc/machine-id'' = Inr (''0123456789abcdef0123456789abcdef'' @ [CHR 0x0A]) \<and>
   get_device_id env_linux [] = (''linux:0123456789abcdef0123456789abcdef'', [])"
proof -
  have h: "\<not> prefix ''win'' (platform env_linux_unreadable)" "prefix ''linux'' (platform env_linux_unreadable)"
    "open_read env_linux_unreadable ''/etc/machine-id'' = Inl (OSError ''Permission denied'')"
    "open_read env_linux_unreadable ''/var/lib/dbus/machine-id'' = Inl (OSError ''Permission denied'')"
    by (simp_all add: env_linux_unreadable_def env_linux_def)
  have g: "\<not> prefix ''win'' (platform env_linux)" "prefix ''linux'' (platform env_linux)"
    "open_read env_linux ''/etc/machine-id'' = Inr (''0123456789abcdef0123456789abcdef'' @ [CHR 0x0A])"
    by (simp_all add: env_linux_def)
  have st: "strip8 (''0123456789abcdef0123456789abcdef'' @ [CHR 0x0A]) = ''0123456789abcdef0123456789abcdef''"
    by (simp add: strip8_def isspace8_def)
  from device_id_tagged [where env = env_linux_unreadable and hs = "[]"
      and ?e1.0 = "OSError ''Permission denied''" and ?e2.0 = "OSError ''Permission denied''"] h
  have a: "get_device_id env_linux_unreadable [] = (''fb_mac:190070690681122'', [])"
    by (auto simp: fallback_id_linux_unreadable)
  from device_id_tagged [where env = env_linux and hs = "[]"
      and ?t1.0 = "''0123456789abcdef0123456789abcdef'' @ [CHR 0x0A]"] g st
  have b: "get_device_id env_linux [] = (''linux:0123456789abcdef0123456789abcdef'', [])"
    by auto
  from h g a b show ?thesis by simp
qed








end
